theory Spec2Isabelle
  imports
    Complex_Main
    "HOL-Library.Sublist"
    "HOL-Library.Char_ord"
    "HOL-Library.List_Lexorder"
    "HOL-Library.Product_Lexorder"
begin

section \<open>The stroke dashboard (stroke.py)\<close>

text \<open>
  The script loads a CSV file into a data frame, relabels four integer-coded columns,
  reads three sidebar widgets, filters the frame, and renders four KPI cards, five charts
  and a block of insights. A data frame is a list of rows in index order; a column is the
  list of one field. An integer cell is an integer, and the sums pandas takes over an
  integer column are 64-bit and wrap around; a float cell is an exact rational, and the
  rounding of floating-point arithmetic is not modelled. A missing cell
  (pandas NaN) is \<open>None\<close>. Following the data model, only the BMI column and the
  relabelled columns can hold missing cells. A Python exception is a value of
  \<open>py_error\<close>.
\<close>

subsection \<open>Data model\<close>

datatype py_error = ValueError | KeyError | StreamlitAPIException

text \<open>A line of the CSV file, under the column names assigned at lines 12-16.\<close>

record raw_row =
  raw_ID :: int
  raw_Gender :: int
  raw_Age :: rat
  raw_Hypertension :: int
  raw_Heart_Disease :: int
  raw_Ever_Married :: int
  raw_Work_Type :: int
  raw_Residence_Type :: int
  raw_Avg_Glucose_Level :: rat
  raw_BMI :: "rat option"
  raw_Smoking_Status :: int
  raw_Stroke :: int

text \<open>A row of the frame returned by \<open>load_data\<close>.\<close>

record row =
  ID :: int
  Gender :: "string option"
  Age :: rat
  Hypertension :: int
  Heart_Disease :: int
  Ever_Married :: int
  Work_Type :: "string option"
  Residence_Type :: "string option"
  Avg_Glucose_Level :: rat
  BMI :: "rat option"
  Smoking_Status :: "string option"
  Stroke :: int

subsection \<open>Loading (lines 10-27)\<close>

definition gender_map :: "int \<rightharpoonup> string" where
  "gender_map = map_of [(0, ''Female''), (1, ''Male'')]"

definition work_type_map :: "int \<rightharpoonup> string" where
  "work_type_map = map_of [(0, ''Never Worked''), (1, ''Private''), (2, ''Self-employed''),
     (3, ''Govt Job''), (4, ''Children'')]"

definition residence_type_map :: "int \<rightharpoonup> string" where
  "residence_type_map = map_of [(0, ''Rural''), (1, ''Urban'')]"

definition smoking_status_map :: "int \<rightharpoonup> string" where
  "smoking_status_map = map_of [(0, ''Unknown''), (1, ''Formerly Smoked''),
     (2, ''Never Smoked''), (3, ''Smokes'')]"

text \<open>
  \<open>Series.map(dict)\<close> looks every cell up in the dictionary; a cell that is not a key
  becomes NaN. The four assignments of lines 23-26 act on one row each.
\<close>

definition load_row :: "raw_row \<Rightarrow> row" where
  "load_row r = \<lparr>ID = raw_ID r,
     Gender = gender_map (raw_Gender r),
     Age = raw_Age r,
     Hypertension = raw_Hypertension r,
     Heart_Disease = raw_Heart_Disease r,
     Ever_Married = raw_Ever_Married r,
     Work_Type = work_type_map (raw_Work_Type r),
     Residence_Type = residence_type_map (raw_Residence_Type r),
     Avg_Glucose_Level = raw_Avg_Glucose_Level r,
     BMI = raw_BMI r,
     Smoking_Status = smoking_status_map (raw_Smoking_Status r),
     Stroke = raw_Stroke r\<rparr>"

definition load_data :: "raw_row list \<Rightarrow> row list" where
  "load_data csv = map load_row csv"

subsection \<open>Column operations of pandas used by the script\<close>

primrec dropna :: "'a option list \<Rightarrow> 'a list" where
  "dropna [] = []"
| "dropna (x # xs) = (case x of None \<Rightarrow> dropna xs | Some v \<Rightarrow> v # dropna xs)"

text \<open>\<open>unique()\<close> keeps the first occurrence of every value, in order of appearance.\<close>

fun unique :: "'a list \<Rightarrow> 'a list" where
  "unique [] = []"
| "unique (x # xs) = x # unique (filter (\<lambda>y. y \<noteq> x) xs)"

text \<open>\<open>min()\<close> and \<open>max()\<close> of a numeric column; NaN (\<open>None\<close>) on an empty column.\<close>

fun col_min :: "rat list \<Rightarrow> rat option" where
  "col_min [] = None"
| "col_min (x # xs) = Some (fold min xs x)"

fun col_max :: "rat list \<Rightarrow> rat option" where
  "col_max [] = None"
| "col_max (x # xs) = Some (fold max xs x)"

text \<open>
  \<open>sum()\<close> of an integer column, and arithmetic on its result, is 64-bit signed and
  wraps around.
\<close>

definition wrap64 :: "int \<Rightarrow> int" where
  "wrap64 n = (n + 2 ^ 63) mod 2 ^ 64 - 2 ^ 63"

definition col_sum :: "int list \<Rightarrow> int" where
  "col_sum xs = wrap64 (sum_list xs)"

text \<open>\<open>mean()\<close> skips missing cells (the caller drops them); NaN on an empty column.\<close>

definition mean :: "rat list \<Rightarrow> rat option" where
  "mean xs = (if xs = [] then None else Some (sum_list xs / of_nat (length xs)))"

text \<open>Comparisons of a column with a scalar, \<open>isin\<close>, \<open>&\<close> and boolean indexing.\<close>

definition ge_col :: "rat list \<Rightarrow> int \<Rightarrow> bool list" where
  "ge_col col v = map (\<lambda>x. of_int v \<le> x) col"

definition le_col :: "rat list \<Rightarrow> int \<Rightarrow> bool list" where
  "le_col col v = map (\<lambda>x. x \<le> of_int v) col"

definition isin :: "string option list \<Rightarrow> string list \<Rightarrow> bool list" where
  "isin col vals = map (\<lambda>x. case x of None \<Rightarrow> False | Some l \<Rightarrow> l \<in> set vals) col"

definition and_mask :: "bool list \<Rightarrow> bool list \<Rightarrow> bool list" where
  "and_mask m1 m2 = map2 (\<and>) m1 m2"

definition boolean_index :: "'a list \<Rightarrow> bool list \<Rightarrow> 'a list" where
  "boolean_index d m = map fst (filter snd (zip d m))"

subsection \<open>Sidebar (lines 33-50) and filter (lines 53-58)\<close>

text \<open>The script's variables after the sidebar, and after the filter.\<close>

record sidebar =
  df :: "row list"
  age_range :: "int \<times> int"
  selected_genders :: "string list"
  selected_smoking :: "string list"

record filtered = sidebar +
  filtered_df :: "row list"

definition filter_dataframe :: "sidebar \<Rightarrow> filtered" where
  "filter_dataframe s =
     \<lparr>df = df s,
      age_range = age_range s,
      selected_genders = selected_genders s,
      selected_smoking = selected_smoking s,
      filtered_df = boolean_index (df s)
        (and_mask
          (and_mask
            (and_mask (ge_col (map Age (df s)) (fst (age_range s)))
                      (le_col (map Age (df s)) (snd (age_range s))))
            (isin (map Gender (df s)) (selected_genders s)))
          (isin (map Smoking_Status (df s)) (selected_smoking s)))\<rparr>"

text \<open>The row predicate the four masks amount to.\<close>

definition passes :: "int \<times> int \<Rightarrow> string list \<Rightarrow> string list \<Rightarrow> row \<Rightarrow> bool" where
  "passes ar gs ss r =
     (of_int (fst ar) \<le> Age r \<and> Age r \<le> of_int (snd ar) \<and>
      Gender r \<in> Some ` set gs \<and> Smoking_Status r \<in> Some ` set ss)"

text \<open>
  What the user has set in the three widgets; \<open>None\<close> is a widget left untouched.
  A widget returns its stored value, or its default when it has none.

  Streamlit refuses to build a slider whose bounds are equal (the script never passes
  \<open>min_value\<close> above \<open>max_value\<close>) or lie outside the integers a JavaScript number
  holds exactly, from \<open>-(2^53 - 1)\<close> to \<open>2^53 - 1\<close>: it raises StreamlitAPIException.
  A stored range that does not lie within the bounds is dropped for the default.
\<close>

record user_input =
  age_choice :: "(int \<times> int) option"
  gender_choice :: "string list option"
  smoking_choice :: "string list option"

definition js_safe :: "int \<Rightarrow> bool" where
  "js_safe n = (- (2 ^ 53 - 1) \<le> n \<and> n \<le> 2 ^ 53 - 1)"

definition slider ::
    "int \<Rightarrow> int \<Rightarrow> int \<times> int \<Rightarrow> (int \<times> int) option \<Rightarrow> py_error + int \<times> int" where
  "slider min_value max_value val choice =
     (if min_value < max_value \<and> js_safe min_value \<and> js_safe max_value
      then Inr (case choice of
                  None \<Rightarrow> val
                | Some c \<Rightarrow>
                    if min_value \<le> fst c \<and> fst c \<le> snd c \<and> snd c \<le> max_value then c else val)
      else Inl StreamlitAPIException)"

definition multiselect :: "string list \<Rightarrow> string list \<Rightarrow> string list option \<Rightarrow> string list" where
  "multiselect options dflt choice = (case choice of None \<Rightarrow> dflt | Some c \<Rightarrow> c)"

text \<open>Python's \<open>int\<close> of a float truncates towards zero and raises ValueError on NaN.\<close>

definition py_int :: "rat \<Rightarrow> int" where
  "py_int q = (if 0 \<le> q then \<lfloor>q\<rfloor> else \<lceil>q\<rceil>)"

definition int_of_float :: "rat option \<Rightarrow> py_error + int" where
  "int_of_float x = (case x of None \<Rightarrow> Inl ValueError | Some q \<Rightarrow> Inr (py_int q))"

text \<open>The slider's bounds, lines 35 and 36.\<close>

definition age_min_value :: "row list \<Rightarrow> py_error + int" where
  "age_min_value d = int_of_float (col_min (map Age d))"

definition age_max_value :: "row list \<Rightarrow> py_error + int" where
  "age_max_value d = int_of_float (col_max (map Age d))"

definition sidebar_filters :: "row list \<Rightarrow> user_input \<Rightarrow> py_error + sidebar" where
  "sidebar_filters d u =
     (case age_min_value d of
        Inl e \<Rightarrow> Inl e
      | Inr lo \<Rightarrow>
          (case age_max_value d of
             Inl e \<Rightarrow> Inl e
           | Inr hi \<Rightarrow>
               (case slider lo hi (lo, hi) (age_choice u) of
                  Inl e \<Rightarrow> Inl e
                | Inr ar \<Rightarrow>
                    Inr \<lparr>df = d,
                         age_range = ar,
                         selected_genders =
                           multiselect (unique (dropna (map Gender d)))
                             (unique (dropna (map Gender d))) (gender_choice u),
                         selected_smoking =
                           multiselect (unique (dropna (map Smoking_Status d)))
                             (unique (dropna (map Smoking_Status d))) (smoking_choice u)\<rparr>)))"

definition default_input :: user_input where
  "default_input = \<lparr>age_choice = None, gender_choice = None, smoking_choice = None\<rparr>"

text \<open>The value of the variable \<open>filtered_df\<close> in a run: sidebar, then filter.\<close>

definition filtered_view :: "row list \<Rightarrow> user_input \<Rightarrow> py_error + row list" where
  "filtered_view d u =
     (case sidebar_filters d u of
        Inl e \<Rightarrow> Inl e
      | Inr s \<Rightarrow> Inr (filtered_df (filter_dataframe s)))"

subsection \<open>KPI cards (lines 64-68)\<close>

record kpi =
  Total_Patients :: nat
  Average_Glucose_Level :: "rat option"
  Average_BMI :: "rat option"
  Stroke_Cases :: int

definition kpi_cards :: "row list \<Rightarrow> kpi" where
  "kpi_cards d =
     \<lparr>Total_Patients = length d,
      Average_Glucose_Level = mean (map Avg_Glucose_Level d),
      Average_BMI = mean (dropna (map BMI d)),
      Stroke_Cases = col_sum (map Stroke d)\<rparr>"

subsection \<open>Chart aggregations (lines 74-127)\<close>

text \<open>
  \<open>value_counts()\<close>: the count of every label present, most frequent first.
  \<open>groupby(keys).size()\<close>: the count of every key present, keys ascending.
  \<open>unstack(fill_value)\<close>: the second key level becomes the columns; a pair of labels
  with no entry holds \<open>fill_value\<close>.
\<close>

definition value_counts :: "'a option list \<Rightarrow> ('a \<times> nat) list" where
  "value_counts col =
     (let xs = dropna col
      in sort_key (\<lambda>p. - int (snd p)) (map (\<lambda>v. (v, count_list xs v)) (unique xs)))"

definition groupby_size :: "('k::linorder) list \<Rightarrow> ('k \<times> nat) list" where
  "groupby_size ks = map (\<lambda>k. (k, count_list ks k)) (sort (unique ks))"

record table =
  index :: "rat list"
  columns :: "int list"
  cells :: "rat \<Rightarrow> int \<Rightarrow> nat"

definition unstack :: "nat \<Rightarrow> ((rat \<times> int) \<times> nat) list \<Rightarrow> table" where
  "unstack fill_value s =
     \<lparr>index = sort (unique (map (fst \<circ> fst) s)),
      columns = sort (unique (map (snd \<circ> fst) s)),
      cells = (\<lambda>a k. case map_of s (a, k) of None \<Rightarrow> fill_value | Some n \<Rightarrow> n)\<rparr>"

text \<open>Reading one cell of a table by its labels; a label that is absent is a KeyError.\<close>

definition cell :: "table \<Rightarrow> rat \<Rightarrow> int \<Rightarrow> py_error + nat" where
  "cell t a k =
     (if a \<in> set (index t) \<and> k \<in> set (columns t) then Inr (cells t a k) else Inl KeyError)"

definition gender_counts :: "row list \<Rightarrow> (string \<times> nat) list" where
  "gender_counts fv = value_counts (map Gender fv)"

definition stroke_by_age :: "row list \<Rightarrow> table" where
  "stroke_by_age fv = unstack 0 (groupby_size (map (\<lambda>r. (Age r, Stroke r)) fv))"

definition counts :: "row list \<Rightarrow> (string \<times> int) list" where
  "counts fv =
     [(''Hypertension'', col_sum (map Hypertension fv)),
      (''Heart Disease'', col_sum (map Heart_Disease fv)),
      (''Neither'',
         wrap64 (wrap64 (int (length fv) - col_sum (map Hypertension fv))
                 - col_sum (map Heart_Disease fv)))]"

definition avg_glucose_by_age :: "row list \<Rightarrow> (rat \<times> rat option) list" where
  "avg_glucose_by_age fv =
     map (\<lambda>a. (a, mean (map Avg_Glucose_Level (filter (\<lambda>r. Age r = a) fv))))
       (sort (unique (map Age fv)))"

definition bmi_by_gender :: "row list \<Rightarrow> (string option \<times> rat option) list" where
  "bmi_by_gender fv = map (\<lambda>r. (Gender r, BMI r)) fv"

text \<open>
  The bar chart of lines 85-92 is built from the table with \<open>x\<close> its index and
  \<open>y = [0, 1]\<close>. When the table has both columns 0 and 1, plotly takes the list as
  two column names and draws, for every age, the two counts. When one of them is missing
  it takes the list as two data values to go with the values of \<open>x\<close>: with exactly two
  ages it draws the values 0 and 1 themselves, with no age it draws nothing, and with any
  other number of ages the lengths differ and it raises ValueError. The other four
  charts are drawn from what the script hands over, whatever it holds.
\<close>

datatype bar_figure =
    Grouped_Bars "(rat \<times> nat \<times> nat) list"
  | Literal_Bars "(rat \<times> int) list"
  | No_Bars

definition px_bar :: "table \<Rightarrow> py_error + bar_figure" where
  "px_bar t =
     (if 0 \<in> set (columns t) \<and> 1 \<in> set (columns t)
      then Inr (Grouped_Bars (map (\<lambda>a. (a, cells t a 0, cells t a 1)) (index t)))
      else if length (index t) = 2 then Inr (Literal_Bars (zip (index t) [0, 1]))
      else if index t = [] then Inr No_Bars
      else Inl ValueError)"

subsection \<open>Insights (lines 133-147)\<close>

text \<open>
  \<open>mode()\<close> drops missing cells and returns the most frequent values in ascending
  order, none for a column with no value; \<open>[0]\<close> reads the entry labelled 0 and raises
  KeyError when there is none.
\<close>

definition mode :: "('a::linorder) option list \<Rightarrow> 'a list" where
  "mode col =
     (let xs = dropna col; u = unique xs; m = fold max (map (count_list xs) u) 0
      in sort (filter (\<lambda>v. count_list xs v = m) u))"

definition getitem0 :: "'a list \<Rightarrow> py_error + 'a" where
  "getitem0 xs = (case xs of [] \<Rightarrow> Inl KeyError | x # _ \<Rightarrow> Inr x)"

definition pct :: "int list \<Rightarrow> rat option" where
  "pct flags = map_option (\<lambda>m. 100 * m) (mean (map of_int flags))"

record insight =
  glucose_mean :: "rat option"
  bmi_mean :: "rat option"
  smoking_mode :: string
  hypertension_pct :: "rat option"
  heart_disease_pct :: "rat option"
  stroke_pct :: "rat option"

definition insights :: "row list \<Rightarrow> py_error + insight" where
  "insights d =
     (case getitem0 (mode (map Smoking_Status d)) of
        Inl e \<Rightarrow> Inl e
      | Inr m \<Rightarrow>
          Inr \<lparr>glucose_mean = mean (map Avg_Glucose_Level d),
               bmi_mean = mean (dropna (map BMI d)),
               smoking_mode = m,
               hypertension_pct = pct (map Hypertension d),
               heart_disease_pct = pct (map Heart_Disease d),
               stroke_pct = pct (map Stroke d)\<rparr>)"

subsection \<open>The script, top to bottom\<close>

text \<open>
  What one run of the script has put on the page, in the order of the script: a part is
  \<open>None\<close> when the run stopped at an exception before reaching it, and \<open>raised\<close>
  is that exception.
\<close>

record page =
  shown_kpi :: "kpi option"
  shown_gender :: "(string \<times> nat) list option"
  shown_stroke_age :: "bar_figure option"
  shown_hypertension_heart :: "(string \<times> int) list option"
  shown_glucose_age :: "(rat \<times> rat option) list option"
  shown_bmi_gender :: "(string option \<times> rat option) list option"
  shown_insights :: "insight option"
  raised :: "py_error option"

definition blank_page :: page where
  "blank_page = \<lparr>shown_kpi = None, shown_gender = None, shown_stroke_age = None,
     shown_hypertension_heart = None, shown_glucose_age = None, shown_bmi_gender = None,
     shown_insights = None, raised = None\<rparr>"

definition dashboard :: "raw_row list \<Rightarrow> user_input \<Rightarrow> page" where
  "dashboard csv u =
     (case sidebar_filters (load_data csv) u of
        Inl e \<Rightarrow> blank_page\<lparr>raised := Some e\<rparr>
      | Inr s \<Rightarrow>
          (let g = filter_dataframe s;
               p1 = blank_page\<lparr>shown_kpi := Some (kpi_cards (df g)),
                                shown_gender := Some (gender_counts (filtered_df g))\<rparr>
           in case px_bar (stroke_by_age (filtered_df g)) of
                Inl e \<Rightarrow> p1\<lparr>raised := Some e\<rparr>
              | Inr fig \<Rightarrow>
                  (let p2 = p1\<lparr>shown_stroke_age := Some fig,
                               shown_hypertension_heart := Some (counts (filtered_df g)),
                               shown_glucose_age := Some (avg_glucose_by_age (filtered_df g)),
                               shown_bmi_gender := Some (bmi_by_gender (filtered_df g))\<rparr>
                   in case insights (df g) of
                        Inl e \<Rightarrow> p2\<lparr>raised := Some e\<rparr>
                      | Inr i \<Rightarrow> p2\<lparr>shown_insights := Some i\<rparr>)))"

subsection \<open>Four sample lines of the file\<close>

definition sample_row1 :: raw_row where
  "sample_row1 = \<lparr>raw_ID = 1, raw_Gender = 0, raw_Age = 40, raw_Hypertension = 1,
     raw_Heart_Disease = 1, raw_Ever_Married = 1, raw_Work_Type = 1, raw_Residence_Type = 0,
     raw_Avg_Glucose_Level = 100, raw_BMI = Some 25, raw_Smoking_Status = 2, raw_Stroke = 0\<rparr>"

definition sample_row2 :: raw_row where
  "sample_row2 = \<lparr>raw_ID = 2, raw_Gender = 1, raw_Age = 40, raw_Hypertension = 0,
     raw_Heart_Disease = 0, raw_Ever_Married = 0, raw_Work_Type = 2, raw_Residence_Type = 1,
     raw_Avg_Glucose_Level = 120, raw_BMI = None, raw_Smoking_Status = 3, raw_Stroke = 1\<rparr>"

definition sample_row3 :: raw_row where
  "sample_row3 = \<lparr>raw_ID = 3, raw_Gender = 1, raw_Age = 165 / 2, raw_Hypertension = 1,
     raw_Heart_Disease = 0, raw_Ever_Married = 1, raw_Work_Type = 0, raw_Residence_Type = 1,
     raw_Avg_Glucose_Level = 110, raw_BMI = Some 30, raw_Smoking_Status = 2, raw_Stroke = 0\<rparr>"

definition sample_row4 :: raw_row where
  "sample_row4 = \<lparr>raw_ID = 4, raw_Gender = 0, raw_Age = 61, raw_Hypertension = 1,
     raw_Heart_Disease = 1, raw_Ever_Married = 1, raw_Work_Type = 3, raw_Residence_Type = 0,
     raw_Avg_Glucose_Level = 130, raw_BMI = Some 28, raw_Smoking_Status = 1, raw_Stroke = 1\<rparr>"

section \<open>Properties\<close>

subsection \<open>Column operations\<close>

lemma set_unique [simp]: "set (unique xs) = set xs"
  by (induction xs rule: unique.induct) auto

lemma distinct_unique [simp]: "distinct (unique xs)"
  by (induction xs rule: unique.induct) auto

lemma set_dropna: "set (dropna xs) = {v. Some v \<in> set xs}"
  by (induction xs) (auto split: option.splits)

lemma col_min_Min: "xs \<noteq> [] \<Longrightarrow> col_min xs = Some (Min (set xs))"
  by (cases xs) (simp_all flip: Min.set_eq_fold)

lemma col_max_Max: "xs \<noteq> [] \<Longrightarrow> col_max xs = Some (Max (set xs))"
  by (cases xs) (simp_all flip: Max.set_eq_fold)

lemma py_int_le: "0 \<le> q \<or> q \<in> \<int> \<Longrightarrow> of_int (py_int q) \<le> q"
  by (auto simp: py_int_def elim!: Ints_cases)

lemma py_int_ge: "q \<le> 0 \<or> q \<in> \<int> \<Longrightarrow> q \<le> of_int (py_int q)"
  by (auto simp: py_int_def elim!: Ints_cases)

lemma py_int_lt: "0 < q \<Longrightarrow> q \<notin> \<int> \<Longrightarrow> of_int (py_int q) < q"
  by (simp add: py_int_def) (metis Ints_of_int floor_correct le_less)

lemma fold_max_Max: "fold max (ns::nat list) 0 = Max (set (0 # ns))"
  by (simp only: Max.set_eq_fold)

lemma mode_props:
  fixes col :: "('a::linorder) option list"
  assumes "dropna col \<noteq> []"
  shows "\<exists>m ms. mode col = m # ms \<and> m \<in> set (dropna col) \<and>
           (\<forall>l. count_list (dropna col) l \<le> count_list (dropna col) m) \<and>
           (\<forall>l. count_list (dropna col) l = count_list (dropna col) m \<longrightarrow> m \<le> l)"
proof -
  let ?xs = "dropna col"
  let ?c = "count_list ?xs"
  let ?M = "Max (set (0 # map ?c (unique ?xs)))"
  let ?best = "filter (\<lambda>v. ?c v = ?M) (unique ?xs)"
  have mode_eq: "mode col = sort ?best"
    by (simp only: mode_def Let_def fold_max_Max)
  have ub: "?c l \<le> ?M" for l
  proof (cases "l \<in> set ?xs")
    case True
    then show ?thesis by (intro Max_ge) auto
  next
    case False
    then show ?thesis by (simp add: count_list_0_iff)
  qed
  obtain x where x: "x \<in> set ?xs"
    using assms by (cases ?xs) auto
  then have "0 < ?c x"
    by (simp add: count_list_0_iff zero_less_iff_neq_zero)
  with ub [of x] have pos: "0 < ?M" by linarith
  have "?M \<in> set (0 # map ?c (unique ?xs))"
    by (rule Max_in) auto
  with pos obtain v where v: "v \<in> set ?xs" "?c v = ?M"
    by auto
  then have ne: "?best \<noteq> []"
    by (auto simp: filter_empty_conv)
  then obtain m ms where ms: "sort ?best = m # ms"
    by (cases "sort ?best") (auto dest: arg_cong[where f = length])
  have "m \<in> set (sort ?best)" unfolding ms by simp
  then have "m \<in> set ?best" by (simp only: set_sort)
  then have m: "m \<in> set ?xs" "?c m = ?M" by simp_all
  have least: "m \<le> l" if "?c l = ?c m" for l
  proof -
    have "0 < ?c l" using that m(2) pos by simp
    then have "l \<in> set ?xs" by (simp add: count_list_0_iff zero_less_iff_neq_zero)
    then have "l \<in> set (sort ?best)" using that m(2) by simp
    moreover have "sorted (sort ?best)" by simp
    ultimately show ?thesis unfolding ms by auto
  qed
  show ?thesis
    using mode_eq ms m ub least by auto
qed

subsection \<open>Loading\<close>

lemma load_data_columns:
  "map Avg_Glucose_Level (load_data csv) = map raw_Avg_Glucose_Level csv"
  "map BMI (load_data csv) = map raw_BMI csv"
  "map Stroke (load_data csv) = map raw_Stroke csv"
  "map Hypertension (load_data csv) = map raw_Hypertension csv"
  "map Heart_Disease (load_data csv) = map raw_Heart_Disease csv"
  "map Age (load_data csv) = map raw_Age csv"
  "length (load_data csv) = length csv"
  by (simp_all add: load_data_def load_row_def)

lemma load_row_labels:
  "Gender (load_row r) =
     (if raw_Gender r = 0 then Some ''Female'' else if raw_Gender r = 1 then Some ''Male''
      else None)"
  "Work_Type (load_row r) =
     (if raw_Work_Type r = 0 then Some ''Never Worked''
      else if raw_Work_Type r = 1 then Some ''Private''
      else if raw_Work_Type r = 2 then Some ''Self-employed''
      else if raw_Work_Type r = 3 then Some ''Govt Job''
      else if raw_Work_Type r = 4 then Some ''Children'' else None)"
  "Residence_Type (load_row r) =
     (if raw_Residence_Type r = 0 then Some ''Rural''
      else if raw_Residence_Type r = 1 then Some ''Urban'' else None)"
  "Smoking_Status (load_row r) =
     (if raw_Smoking_Status r = 0 then Some ''Unknown''
      else if raw_Smoking_Status r = 1 then Some ''Formerly Smoked''
      else if raw_Smoking_Status r = 2 then Some ''Never Smoked''
      else if raw_Smoking_Status r = 3 then Some ''Smokes'' else None)"
  by (simp_all add: load_row_def gender_map_def work_type_map_def residence_type_map_def
      smoking_status_map_def)

lemmas sample_defs = sample_row1_def sample_row2_def sample_row3_def sample_row4_def

subsection \<open>Sidebar and filter\<close>


lemma boolean_index_map:
  "boolean_index d (map P d) = filter P d"
  by (induction d) (simp_all add: boolean_index_def)

lemma and_mask_map:
  "and_mask (map P d) (map Q d) = map (\<lambda>x. P x \<and> Q x) d"
  by (induction d) (simp_all add: and_mask_def)

lemma isin_map:
  "isin (map f d) vals = map (\<lambda>r. f r \<in> Some ` set vals) d"
  by (induction d) (auto simp: isin_def split: option.splits)

lemma filtered_df_eq_filter:
  "filtered_df (filter_dataframe s) =
     filter (passes (age_range s) (selected_genders s) (selected_smoking s)) (df s)"
proof -
  have "filtered_df (filter_dataframe s) =
      boolean_index (df s)
        (map (\<lambda>r. ((of_int (fst (age_range s)) \<le> Age r \<and> Age r \<le> of_int (snd (age_range s))) \<and>
                   Gender r \<in> Some ` set (selected_genders s)) \<and>
                   Smoking_Status r \<in> Some ` set (selected_smoking s)) (df s))"
    by (simp add: filter_dataframe_def ge_col_def le_col_def isin_map and_mask_map)
  also have "\<dots> = filter (passes (age_range s) (selected_genders s) (selected_smoking s)) (df s)"
    unfolding boolean_index_map by (rule filter_cong) (auto simp: passes_def)
  finally show ?thesis .
qed

lemma age_min_value_eq:
  "age_min_value d = (if d = [] then Inl ValueError else Inr (py_int (Min (Age ` set d))))"
  by (simp add: age_min_value_def int_of_float_def col_min_Min)

lemma age_max_value_eq:
  "age_max_value d = (if d = [] then Inl ValueError else Inr (py_int (Max (Age ` set d))))"
  by (simp add: age_max_value_def int_of_float_def col_max_Max)

lemma slider_Inr:
  "slider lo hi (lo, hi) c = Inr ar \<Longrightarrow>
     lo < hi \<and> js_safe lo \<and> js_safe hi \<and> lo \<le> fst ar \<and> fst ar \<le> snd ar \<and> snd ar \<le> hi \<and>
     (c = None \<longrightarrow> ar = (lo, hi))"
  by (auto simp: slider_def split: if_splits option.splits)

lemma slider_ok:
  "lo < hi \<Longrightarrow> js_safe lo \<Longrightarrow> js_safe hi \<Longrightarrow> \<exists>ar. slider lo hi (lo, hi) c = Inr ar"
  by (simp add: slider_def)

lemma slider_fails:
  "\<not> (lo < hi \<and> js_safe lo \<and> js_safe hi) \<Longrightarrow>
     slider lo hi v c = Inl StreamlitAPIException"
  by (auto simp: slider_def)

lemma sidebar_filters_eq:
  "sidebar_filters d u =
     (if d = [] then Inl ValueError
      else case slider (py_int (Min (Age ` set d))) (py_int (Max (Age ` set d)))
                  (py_int (Min (Age ` set d)), py_int (Max (Age ` set d))) (age_choice u) of
             Inl e \<Rightarrow> Inl e
           | Inr ar \<Rightarrow>
               Inr \<lparr>df = d, age_range = ar,
                    selected_genders =
                      multiselect (unique (dropna (map Gender d)))
                        (unique (dropna (map Gender d))) (gender_choice u),
                    selected_smoking =
                      multiselect (unique (dropna (map Smoking_Status d)))
                        (unique (dropna (map Smoking_Status d))) (smoking_choice u)\<rparr>)"
  by (simp add: sidebar_filters_def age_min_value_eq age_max_value_eq)

text \<open>Whether the sidebar is built depends on the frame alone, not on the widgets.\<close>

lemma sidebar_filters_built:
  "(\<exists>s. sidebar_filters d u = Inr s) \<longleftrightarrow>
     d \<noteq> [] \<and> py_int (Min (Age ` set d)) < py_int (Max (Age ` set d)) \<and>
     js_safe (py_int (Min (Age ` set d))) \<and> js_safe (py_int (Max (Age ` set d)))"
  by (auto simp: sidebar_filters_eq slider_def split: sum.splits)

lemma sidebar_filters_df:
  "sidebar_filters d u = Inr s \<Longrightarrow> df s = d"
  by (auto simp: sidebar_filters_eq split: if_splits sum.splits)

lemma df_filter_dataframe: "df (filter_dataframe s) = df s"
  by (simp add: filter_dataframe_def)

lemma filtered_view_eq:
  "filtered_view d u =
     (case sidebar_filters d u of
        Inl e \<Rightarrow> Inl e
      | Inr s \<Rightarrow>
          Inr (filter (passes (age_range s) (selected_genders s) (selected_smoking s)) (df s)))"
  by (simp add: filtered_view_def filtered_df_eq_filter split: sum.splits)

subsection \<open>Charts, KPI cards and insights\<close>

lemma map_of_groupby_size:
  "map_of (groupby_size ks) k = (if k \<in> set ks then Some (count_list ks k) else None)"
  by (auto simp: groupby_size_def map_of_map_restrict restrict_map_def)

lemma cells_stroke_by_age:
  "cells (stroke_by_age fv) a k = length (filter (\<lambda>r. Age r = a \<and> Stroke r = k) fv)"
proof -
  have "count_list (map (\<lambda>r. (Age r, Stroke r)) fv) (a, k) =
      length (filter (\<lambda>r. Age r = a \<and> Stroke r = k) fv)"
    by (induction fv) auto
  then show ?thesis
    by (auto simp: stroke_by_age_def unstack_def map_of_groupby_size count_list_0_iff)
qed

lemma index_stroke_by_age: "set (index (stroke_by_age fv)) = Age ` set fv"
  by (auto simp: stroke_by_age_def unstack_def groupby_size_def image_iff)

lemma columns_stroke_by_age: "set (columns (stroke_by_age fv)) = Stroke ` set fv"
  by (auto simp: stroke_by_age_def unstack_def groupby_size_def image_iff)

lemma distinct_columns: "distinct (columns (stroke_by_age fv))"
  by (simp add: stroke_by_age_def unstack_def)

lemma sum_list_delta:
  "distinct ks \<Longrightarrow> (\<Sum>k\<leftarrow>ks. if x = k then 1 else 0) = (if x \<in> set ks then 1 else (0::nat))"
  by (induction ks) auto

lemma sum_cells_row:
  assumes "distinct ks" "Stroke ` set fv \<subseteq> set ks"
  shows "(\<Sum>k\<leftarrow>ks. length (filter (\<lambda>r. Age r = a \<and> Stroke r = k) fv)) =
         length (filter (\<lambda>r. Age r = a) fv)"
  using assms(2)
proof (induction fv)
  case Nil
  then show ?case by simp
next
  case (Cons r fv)
  have one: "(\<Sum>k\<leftarrow>ks. if Stroke r = k then 1 else 0) = (1::nat)"
    using assms(1) Cons.prems by (simp add: sum_list_delta)
  have IH: "(\<Sum>k\<leftarrow>ks. length (filter (\<lambda>r. Age r = a \<and> Stroke r = k) fv)) =
         length (filter (\<lambda>r. Age r = a) fv)"
    using Cons by simp
  show ?case
  proof (cases "Age r = a")
    case True
    then have "(\<Sum>k\<leftarrow>ks. length (filter (\<lambda>r. Age r = a \<and> Stroke r = k) (r # fv))) =
        (\<Sum>k\<leftarrow>ks. (if Stroke r = k then 1 else 0) + length (filter (\<lambda>r. Age r = a \<and> Stroke r = k) fv))"
      by (intro arg_cong[where f = sum_list] map_cong) auto
    also have "\<dots> = 1 + length (filter (\<lambda>r. Age r = a) fv)"
      by (simp only: sum_list_addf one IH)
    finally show ?thesis using True by simp
  next
    case False
    then show ?thesis using IH by simp
  qed
qed

lemma stroke_by_age_row_sum:
  "(\<Sum>k\<leftarrow>columns (stroke_by_age fv). cells (stroke_by_age fv) a k) =
     length (filter (\<lambda>r. Age r = a) fv)"
  unfolding cells_stroke_by_age
  by (rule sum_cells_row) (simp_all add: distinct_columns columns_stroke_by_age)

lemma wrap64_id: "- (2 ^ 63) \<le> n \<Longrightarrow> n < 2 ^ 63 \<Longrightarrow> wrap64 n = n"
  by (simp add: wrap64_def)

lemma sum_list_flags:
  "\<forall>x\<in>set xs. x = 0 \<or> x = (1::int) \<Longrightarrow> 0 \<le> sum_list xs \<and> sum_list xs \<le> int (length xs)"
  by (induction xs) auto

lemma col_sum_flags:
  assumes "\<forall>x\<in>set xs. x = 0 \<or> x = 1" and "length xs < 2 ^ 63"
  shows "col_sum xs = sum_list xs"
proof -
  have "int (length xs) < 2 ^ 63"
    using assms(2) by (metis of_nat_less_iff of_nat_numeral of_nat_power)
  with sum_list_flags [OF assms(1)] show ?thesis
    unfolding col_sum_def by (intro wrap64_id) linarith+
qed


lemma shown_kpi_dashboard:
  "shown_kpi (dashboard csv u) =
     (case sidebar_filters (load_data csv) u of
        Inl e \<Rightarrow> None
      | Inr s \<Rightarrow> Some (kpi_cards (load_data csv)))"
  by (auto simp: dashboard_def blank_page_def df_filter_dataframe Let_def
      dest: sidebar_filters_df split: sum.splits)

lemma insights_eq:
  assumes "mode (map Smoking_Status d) = m # ms"
  shows "insights d =
          Inr \<lparr>glucose_mean = mean (map Avg_Glucose_Level d),
               bmi_mean = mean (dropna (map BMI d)),
               smoking_mode = m,
               hypertension_pct = pct (map Hypertension d),
               heart_disease_pct = pct (map Heart_Disease d),
               stroke_pct = pct (map Stroke d)\<rparr>"
  using assms by (simp add: insights_def getitem0_def)

lemma mode_Nil: "dropna col = [] \<Longrightarrow> mode col = []"
  by (simp add: mode_def)

lemma insights_KeyError:
  "dropna (map Smoking_Status d) = [] \<Longrightarrow> insights d = Inl KeyError"
  by (simp add: insights_def getitem0_def mode_Nil)

lemma shown_insights_dashboard:
  "shown_insights (dashboard csv u) =
     (case sidebar_filters (load_data csv) u of
        Inl e \<Rightarrow> None
      | Inr s \<Rightarrow>
          (case px_bar (stroke_by_age (filtered_df (filter_dataframe s))) of
             Inl e \<Rightarrow> None
           | Inr fig \<Rightarrow>
               (case insights (load_data csv) of Inl e \<Rightarrow> None | Inr i \<Rightarrow> Some i)))"
  by (auto simp: dashboard_def blank_page_def df_filter_dataframe Let_def
      dest: sidebar_filters_df split: sum.splits)

section \<open>The claims\<close>

text \<open>
  C1. For every frame and every selection (an age range, a list of gender labels, a list
  of smoking-status labels), the filtered view is exactly the rows of the frame, in their
  order, whose age lies in the range (both ends included), whose gender label is among
  the selected ones and whose smoking-status label is among the selected ones.
\<close>

theorem filtered_df_exact:
  "filtered_df (filter_dataframe \<lparr>df = d, age_range = (a, b), selected_genders = gs,
       selected_smoking = ss\<rparr>) =
     filter (\<lambda>r. of_int a \<le> Age r \<and> Age r \<le> of_int b \<and>
                 (\<exists>g. Gender r = Some g \<and> g \<in> set gs) \<and>
                 (\<exists>l. Smoking_Status r = Some l \<and> l \<in> set ss)) d"
  unfolding filtered_df_eq_filter
  by (rule filter_cong) (auto simp: passes_def)

theorem filtered_df_exact_witness:
  "filtered_df (filter_dataframe
     \<lparr>df = load_data [sample_row1, sample_row2, sample_row3], age_range = (40, 82),
      selected_genders = [''Male''], selected_smoking = [''Smokes'', ''Never Smoked'']\<rparr>) =
   [load_row sample_row2]"
  by (simp add: filtered_df_exact load_data_def load_row_def sample_defs gender_map_def
      smoking_status_map_def)



text \<open>
  C3, as amended. Take a non-empty file whose gender codes are all 0 or 1 and whose
  smoking-status codes are all 0 to 3, whose smallest age is non-negative or whole and
  whose largest age is whole or non-positive, and whose truncated smallest and largest
  ages differ and are exact JavaScript integers. Then the run with all three widgets
  left at their defaults builds the sidebar and its filtered view is the whole loaded
  frame, so it has the frame's row count. (As stated, for every file, the claim fails: a
  row whose gender code has no label is in no default selection, since the options of
  line 42 drop missing labels.)
\<close>

theorem default_filter_whole_dataset:
  assumes ne: "csv \<noteq> []"
    and codes: "\<forall>r\<in>set csv. raw_Gender r \<in> {0, 1} \<and> raw_Smoking_Status r \<in> {0, 1, 2, 3}"
    and lo: "0 \<le> Min (raw_Age ` set csv) \<or> Min (raw_Age ` set csv) \<in> \<int>"
    and hi: "Max (raw_Age ` set csv) \<le> 0 \<or> Max (raw_Age ` set csv) \<in> \<int>"
    and differ: "py_int (Min (raw_Age ` set csv)) < py_int (Max (raw_Age ` set csv))"
    and safe: "js_safe (py_int (Min (raw_Age ` set csv)))"
      "js_safe (py_int (Max (raw_Age ` set csv)))"
  shows "filtered_view (load_data csv) default_input = Inr (load_data csv) \<and>
         (\<exists>v. filtered_view (load_data csv) default_input = Inr v \<and> length v = length csv)"
proof -
  let ?d = "load_data csv"
  let ?lo = "py_int (Min (Age ` set ?d))"
  let ?hi = "py_int (Max (Age ` set ?d))"
  have ages: "Age ` set ?d = raw_Age ` set csv"
    by (simp add: load_data_def load_row_def image_image)
  have dne: "?d \<noteq> []"
    using ne by (simp add: load_data_def)
  have sl: "slider ?lo ?hi (?lo, ?hi) None = Inr (?lo, ?hi)"
    using differ safe unfolding ages by (simp add: slider_def)
  have all: "passes (?lo, ?hi) (unique (dropna (map Gender ?d)))
      (unique (dropna (map Smoking_Status ?d))) x"
    if x: "x \<in> set ?d" for x
  proof -
    from x obtain r where r: "r \<in> set csv" "x = load_row r"
      by (auto simp: load_data_def)
    have "Age x \<in> Age ` set ?d" using x by simp
    then have "Min (Age ` set ?d) \<le> Age x" "Age x \<le> Max (Age ` set ?d)"
      by simp_all
    moreover have "of_int ?lo \<le> Min (Age ` set ?d)"
      unfolding ages by (rule py_int_le) (rule lo)
    moreover have "Max (Age ` set ?d) \<le> of_int ?hi"
      unfolding ages by (rule py_int_ge) (rule hi)
    ultimately have age: "of_int ?lo \<le> Age x" "Age x \<le> of_int ?hi"
      by linarith+
    from codes r have "Gender x \<noteq> None" "Smoking_Status x \<noteq> None"
      by (auto simp: load_row_labels)
    then obtain g l where gl: "Gender x = Some g" "Smoking_Status x = Some l"
      by auto
    with x have "g \<in> set (dropna (map Gender ?d))" "l \<in> set (dropna (map Smoking_Status ?d))"
      by (force simp: set_dropna)+
    with age gl show ?thesis
      by (simp add: passes_def)
  qed
  have "filtered_view ?d default_input = Inr ?d"
    using dne all
    by (simp add: filtered_view_eq sidebar_filters_eq sl default_input_def multiselect_def)
  then show ?thesis
    by (simp add: load_data_def)
qed

theorem default_filter_whole_dataset_witness:
  "filtered_view (load_data [sample_row1, sample_row2, sample_row4]) default_input =
     Inr (load_data [sample_row1, sample_row2, sample_row4])"
proof -
  let ?csv = "[sample_row1, sample_row2, sample_row4]"
  have ne: "?csv \<noteq> []" by simp
  have codes: "\<forall>r\<in>set ?csv. raw_Gender r \<in> {0, 1} \<and> raw_Smoking_Status r \<in> {0, 1, 2, 3}"
    by (simp add: sample_defs)
  have "Min (raw_Age ` set ?csv) = 40" "Max (raw_Age ` set ?csv) = 61"
    by (simp_all add: sample_defs)
  moreover have "py_int 40 = 40" "py_int 61 = 61"
    by code_simp+
  ultimately have mn: "Min (raw_Age ` set ?csv) = 40" and mx: "Max (raw_Age ` set ?csv) = 61"
    and pmn: "py_int (Min (raw_Age ` set ?csv)) = 40"
    and pmx: "py_int (Max (raw_Age ` set ?csv)) = 61"
    by (simp_all only:)
  have lo: "0 \<le> Min (raw_Age ` set ?csv) \<or> Min (raw_Age ` set ?csv) \<in> \<int>"
    unfolding mn by simp
  have hi: "Max (raw_Age ` set ?csv) \<le> 0 \<or> Max (raw_Age ` set ?csv) \<in> \<int>"
    unfolding mx by simp
  have differ: "py_int (Min (raw_Age ` set ?csv)) < py_int (Max (raw_Age ` set ?csv))"
    unfolding pmn pmx by simp
  have safe: "js_safe (py_int (Min (raw_Age ` set ?csv)))"
    "js_safe (py_int (Max (raw_Age ` set ?csv)))"
    unfolding pmn pmx by (simp_all add: js_safe_def)
  from default_filter_whole_dataset [OF ne codes lo hi differ safe] show ?thesis
    by blast
qed

text \<open>
  C3, the claim as stated, refuted: a two-line file whose second line has gender code 2.
  With the widgets at their defaults the view holds the first row only.
\<close>

theorem default_filter_drops_rows:
  "filtered_view (load_data
     [\<lparr>raw_ID = 1, raw_Gender = 0, raw_Age = 40, raw_Hypertension = 0, raw_Heart_Disease = 0,
       raw_Ever_Married = 1, raw_Work_Type = 1, raw_Residence_Type = 0,
       raw_Avg_Glucose_Level = 100, raw_BMI = Some 25, raw_Smoking_Status = 2, raw_Stroke = 0\<rparr>,
      \<lparr>raw_ID = 2, raw_Gender = 2, raw_Age = 50, raw_Hypertension = 1, raw_Heart_Disease = 0,
       raw_Ever_Married = 1, raw_Work_Type = 1, raw_Residence_Type = 1,
       raw_Avg_Glucose_Level = 120, raw_BMI = Some 30, raw_Smoking_Status = 3, raw_Stroke = 1\<rparr>])
     default_input
   = Inr [load_row
      \<lparr>raw_ID = 1, raw_Gender = 0, raw_Age = 40, raw_Hypertension = 0, raw_Heart_Disease = 0,
       raw_Ever_Married = 1, raw_Work_Type = 1, raw_Residence_Type = 0,
       raw_Avg_Glucose_Level = 100, raw_BMI = Some 25, raw_Smoking_Status = 2, raw_Stroke = 0\<rparr>] \<and>
   length (load_data
     [\<lparr>raw_ID = 1, raw_Gender = 0, raw_Age = 40, raw_Hypertension = 0, raw_Heart_Disease = 0,
       raw_Ever_Married = 1, raw_Work_Type = 1, raw_Residence_Type = 0,
       raw_Avg_Glucose_Level = 100, raw_BMI = Some 25, raw_Smoking_Status = 2, raw_Stroke = 0\<rparr>,
      \<lparr>raw_ID = 2, raw_Gender = 2, raw_Age = 50, raw_Hypertension = 1, raw_Heart_Disease = 0,
       raw_Ever_Married = 1, raw_Work_Type = 1, raw_Residence_Type = 1,
       raw_Avg_Glucose_Level = 120, raw_BMI = Some 30, raw_Smoking_Status = 3, raw_Stroke = 1\<rparr>])
   = 2"
  by code_simp

text \<open>
  C4. For every filtered view of fewer than \<open>2^63\<close> rows whose hypertension and
  heart-disease flags are 0 or 1, the entry Neither of the pie data is the row count
  minus the sum of the hypertension flags minus the sum of the heart-disease flags, and
  the three entries add up to the row count. The entry is negative when most rows carry
  both flags, as in the example after the theorem.
\<close>

theorem counts_sum:
  assumes "\<forall>r\<in>set fv. (Hypertension r = 0 \<or> Hypertension r = 1) \<and>
                     (Heart_Disease r = 0 \<or> Heart_Disease r = 1)"
    and "length fv < 2 ^ 63"
  shows "counts fv = [(''Hypertension'', sum_list (map Hypertension fv)),
                      (''Heart Disease'', sum_list (map Heart_Disease fv)),
                      (''Neither'', int (length fv) - sum_list (map Hypertension fv)
                                      - sum_list (map Heart_Disease fv))] \<and>
         sum_list (map snd (counts fv)) = int (length fv)"
proof -
  have n: "int (length fv) < 2 ^ 63"
    using assms(2) by (metis of_nat_less_iff of_nat_numeral of_nat_power)
  have fh: "\<forall>x\<in>set (map Hypertension fv). x = 0 \<or> x = 1"
    and fd: "\<forall>x\<in>set (map Heart_Disease fv). x = 0 \<or> x = 1"
    using assms(1) by auto
  have h: "col_sum (map Hypertension fv) = sum_list (map Hypertension fv)"
    and d: "col_sum (map Heart_Disease fv) = sum_list (map Heart_Disease fv)"
    using assms(2) by (simp_all add: col_sum_flags [OF fh] col_sum_flags [OF fd])
  have hb: "0 \<le> sum_list (map Hypertension fv) \<and>
      sum_list (map Hypertension fv) \<le> int (length fv)"
    and db: "0 \<le> sum_list (map Heart_Disease fv) \<and>
      sum_list (map Heart_Disease fv) \<le> int (length fv)"
    using sum_list_flags [OF fh] sum_list_flags [OF fd] by simp_all
  have w1: "wrap64 (int (length fv) - sum_list (map Hypertension fv)) =
      int (length fv) - sum_list (map Hypertension fv)"
    using n hb by (intro wrap64_id) simp_all
  have w2: "wrap64 (int (length fv) - sum_list (map Hypertension fv)
                - sum_list (map Heart_Disease fv)) =
      int (length fv) - sum_list (map Hypertension fv) - sum_list (map Heart_Disease fv)"
    using n hb db by (intro wrap64_id) simp_all
  show ?thesis
    by (simp add: counts_def h d w1 w2)
qed

theorem counts_sum_witness:
  "shown_hypertension_heart (dashboard [sample_row1, sample_row2, sample_row4] default_input) =
     Some (counts (load_data [sample_row1, sample_row2, sample_row4])) \<and>
   counts (load_data [sample_row1, sample_row2, sample_row4]) =
     [(''Hypertension'', 2), (''Heart Disease'', 2), (''Neither'', - 1)] \<and>
   sum_list (map snd (counts (load_data [sample_row1, sample_row2, sample_row4]))) = 3"
proof -
  let ?fv = "load_data [sample_row1, sample_row2, sample_row4]"
  have shown: "shown_hypertension_heart
      (dashboard [sample_row1, sample_row2, sample_row4] default_input) = Some (counts ?fv)"
    by code_simp
  have flags: "\<forall>r\<in>set ?fv. (Hypertension r = 0 \<or> Hypertension r = 1) \<and>
                     (Heart_Disease r = 0 \<or> Heart_Disease r = 1)"
    by (simp add: load_data_def load_row_def sample_defs)
  have len: "length ?fv < 2 ^ 63"
    by (simp add: load_data_def)
  from counts_sum [OF flags len] shown show ?thesis
    by (simp add: load_data_def load_row_def sample_defs)
qed

text \<open>
  C5. For every filtered view whose stroke flags are 0 or 1 and every age \<open>a\<close> present
  in it: \<open>a\<close> labels a row of the stroke-by-age table; the table's columns are the
  outcomes present in the view; the cell of \<open>a\<close> under a column \<open>k\<close> is the number of
  rows of age \<open>a\<close> and outcome \<open>k\<close> (zero, the fill value, when there is none); and
  the count for outcome 0 plus the count for outcome 1 is the number of rows of age
  \<open>a\<close>, an outcome with no column counting as zero.
\<close>

theorem stroke_by_age_row_total:
  assumes "\<forall>r\<in>set fv. Stroke r = 0 \<or> Stroke r = 1" and "a \<in> Age ` set fv"
  shows "a \<in> set (index (stroke_by_age fv)) \<and>
         set (columns (stroke_by_age fv)) = Stroke ` set fv \<and>
         (\<forall>k\<in>set (columns (stroke_by_age fv)).
            cell (stroke_by_age fv) a k =
              Inr (length (filter (\<lambda>r. Age r = a \<and> Stroke r = k) fv))) \<and>
         (case cell (stroke_by_age fv) a 0 of Inl e \<Rightarrow> 0 | Inr n \<Rightarrow> n) +
         (case cell (stroke_by_age fv) a 1 of Inl e \<Rightarrow> 0 | Inr n \<Rightarrow> n) =
           length (filter (\<lambda>r. Age r = a) fv)"
proof -
  let ?T = "stroke_by_age fv"
  let ?n = "\<lambda>k. length (filter (\<lambda>r. Age r = a \<and> Stroke r = k) fv)"
  have idx: "a \<in> set (index ?T)"
    using assms(2) by (simp add: index_stroke_by_age)
  have cols: "set (columns ?T) = Stroke ` set fv"
    by (rule columns_stroke_by_age)
  have present: "cell ?T a k = Inr (?n k)" if "k \<in> set (columns ?T)" for k
    using that idx by (simp add: cell_def cells_stroke_by_age)
  have absent: "?n k = 0" if "k \<notin> set (columns ?T)" for k
    using that unfolding cols by (auto simp: filter_empty_conv)
  have read: "(case cell ?T a k of Inl e \<Rightarrow> 0 | Inr n \<Rightarrow> n) = ?n k" for k
    using present [of k] absent [of k] by (cases "k \<in> set (columns ?T)") (simp_all add: cell_def)
  have "(\<Sum>k\<leftarrow>[0, 1]. ?n k) = length (filter (\<lambda>r. Age r = a) fv)"
    by (rule sum_cells_row) (use assms(1) in auto)
  then have total: "?n 0 + ?n 1 = length (filter (\<lambda>r. Age r = a) fv)"
    by simp
  show ?thesis
    using idx cols present total by (simp add: read)
qed

theorem stroke_by_age_row_total_witness:
  "cell (stroke_by_age (load_data [sample_row1, sample_row2, sample_row3])) 40 0 = Inr 1 \<and>
   cell (stroke_by_age (load_data [sample_row1, sample_row2, sample_row3])) 40 1 = Inr 1 \<and>
   cell (stroke_by_age (load_data [sample_row1, sample_row2, sample_row3])) (165 / 2) 1 = Inr 0 \<and>
   (case cell (stroke_by_age (load_data [sample_row1, sample_row2, sample_row3])) 40 0 of
      Inl e \<Rightarrow> 0 | Inr n \<Rightarrow> n) +
   (case cell (stroke_by_age (load_data [sample_row1, sample_row2, sample_row3])) 40 1 of
      Inl e \<Rightarrow> 0 | Inr n \<Rightarrow> n) = 2"
proof -
  let ?fv = "load_data [sample_row1, sample_row2, sample_row3]"
  have flags: "\<forall>r\<in>set ?fv. Stroke r = 0 \<or> Stroke r = 1"
    by (simp add: load_data_def load_row_def sample_defs)
  have age: "40 \<in> Age ` set ?fv" "165 / 2 \<in> Age ` set ?fv"
    by (simp_all add: load_data_def load_row_def sample_defs)
  have n: "length (filter (\<lambda>r. Age r = 40) ?fv) = 2"
    "length (filter (\<lambda>r. Age r = 40 \<and> Stroke r = 0) ?fv) = 1"
    "length (filter (\<lambda>r. Age r = 40 \<and> Stroke r = 1) ?fv) = 1"
    "length (filter (\<lambda>r. Age r = 165 / 2 \<and> Stroke r = 1) ?fv) = 0"
    by (simp_all add: load_data_def load_row_def sample_defs)
  have st: "Stroke ` set ?fv = {0, 1}"
    by (auto simp add: load_data_def load_row_def sample_defs)
  note young = stroke_by_age_row_total [OF flags age(1), unfolded st n]
  note old = stroke_by_age_row_total [OF flags age(2), unfolded st]
  from young have cols: "set (columns (stroke_by_age ?fv)) = {0, 1}"
    and at40: "\<forall>k\<in>set (columns (stroke_by_age ?fv)). cell (stroke_by_age ?fv) 40 k =
      Inr (length (filter (\<lambda>r. Age r = 40 \<and> Stroke r = k) ?fv))"
    by blast+
  from old have at82: "\<forall>k\<in>set (columns (stroke_by_age ?fv)).
      cell (stroke_by_age ?fv) (165 / 2) k =
      Inr (length (filter (\<lambda>r. Age r = 165 / 2 \<and> Stroke r = k) ?fv))"
    by blast
  have in0: "0 \<in> set (columns (stroke_by_age ?fv))" and in1: "1 \<in> set (columns (stroke_by_age ?fv))"
    by (simp_all add: cols)
  note c = bspec [OF at40 in0, unfolded n] bspec [OF at40 in1, unfolded n]
    bspec [OF at82 in1, unfolded n]
  show ?thesis
    using c young by simp
qed

text \<open>
  C6. For every file and every setting of the widgets, the KPI cards of a run are
  computed over the whole file: whenever the sidebar is built (the file is not empty and
  the truncated smallest and largest ages differ and are exact JavaScript integers) the
  cards show the row count of the file, the mean of its glucose column, the mean of its
  BMI column without the missing cells, and the 64-bit sum of its stroke column;
  otherwise the run stops at the slider and shows no card. Two runs on the same file with
  different widget settings show the same cards. For 0/1 stroke flags and fewer than
  \<open>2^63\<close> rows the 64-bit sum is the sum.
\<close>

theorem kpi_cards_unfiltered:
  "shown_kpi (dashboard csv u) =
     (if csv \<noteq> [] \<and>
         py_int (Min (raw_Age ` set csv)) < py_int (Max (raw_Age ` set csv)) \<and>
         js_safe (py_int (Min (raw_Age ` set csv))) \<and>
         js_safe (py_int (Max (raw_Age ` set csv)))
      then Some \<lparr>Total_Patients = length csv,
                 Average_Glucose_Level = mean (map raw_Avg_Glucose_Level csv),
                 Average_BMI = mean (dropna (map raw_BMI csv)),
                 Stroke_Cases = wrap64 (sum_list (map raw_Stroke csv))\<rparr>
      else None) \<and>
   shown_kpi (dashboard csv u) = shown_kpi (dashboard csv u') \<and>
   ((\<forall>r\<in>set csv. raw_Stroke r = 0 \<or> raw_Stroke r = 1) \<and> length csv < 2 ^ 63 \<longrightarrow>
      wrap64 (sum_list (map raw_Stroke csv)) = sum_list (map raw_Stroke csv))"
proof (intro conjI impI)
  have ages: "Age ` set (load_data csv) = raw_Age ` set csv"
    by (simp add: load_data_def load_row_def image_image)
  have ne: "load_data csv = [] \<longleftrightarrow> csv = []"
    by (simp add: load_data_def)
  have built: "(\<exists>s. sidebar_filters (load_data csv) v = Inr s) \<longleftrightarrow>
      csv \<noteq> [] \<and> py_int (Min (raw_Age ` set csv)) < py_int (Max (raw_Age ` set csv)) \<and>
      js_safe (py_int (Min (raw_Age ` set csv))) \<and> js_safe (py_int (Max (raw_Age ` set csv)))"
    for v
    unfolding sidebar_filters_built ages ne by simp
  have cards: "kpi_cards (load_data csv) =
      \<lparr>Total_Patients = length csv,
       Average_Glucose_Level = mean (map raw_Avg_Glucose_Level csv),
       Average_BMI = mean (dropna (map raw_BMI csv)),
       Stroke_Cases = wrap64 (sum_list (map raw_Stroke csv))\<rparr>"
    by (simp add: kpi_cards_def load_data_columns col_sum_def)
  have shown: "shown_kpi (dashboard csv v) =
     (if csv \<noteq> [] \<and>
         py_int (Min (raw_Age ` set csv)) < py_int (Max (raw_Age ` set csv)) \<and>
         js_safe (py_int (Min (raw_Age ` set csv))) \<and>
         js_safe (py_int (Max (raw_Age ` set csv)))
      then Some \<lparr>Total_Patients = length csv,
                 Average_Glucose_Level = mean (map raw_Avg_Glucose_Level csv),
                 Average_BMI = mean (dropna (map raw_BMI csv)),
                 Stroke_Cases = wrap64 (sum_list (map raw_Stroke csv))\<rparr>
      else None)" for v
    using built [of v] unfolding shown_kpi_dashboard cards [symmetric]
    by (cases "sidebar_filters (load_data csv) v") auto
  show "shown_kpi (dashboard csv u) =
     (if csv \<noteq> [] \<and>
         py_int (Min (raw_Age ` set csv)) < py_int (Max (raw_Age ` set csv)) \<and>
         js_safe (py_int (Min (raw_Age ` set csv))) \<and>
         js_safe (py_int (Max (raw_Age ` set csv)))
      then Some \<lparr>Total_Patients = length csv,
                 Average_Glucose_Level = mean (map raw_Avg_Glucose_Level csv),
                 Average_BMI = mean (dropna (map raw_BMI csv)),
                 Stroke_Cases = wrap64 (sum_list (map raw_Stroke csv))\<rparr>
      else None)"
    by (rule shown)
  show "shown_kpi (dashboard csv u) = shown_kpi (dashboard csv u')"
    by (simp only: shown)
next
  assume "(\<forall>r\<in>set csv. raw_Stroke r = 0 \<or> raw_Stroke r = 1) \<and> length csv < 2 ^ 63"
  then have "\<forall>x\<in>set (map raw_Stroke csv). x = 0 \<or> x = 1" "length (map raw_Stroke csv) < 2 ^ 63"
    by auto
  from col_sum_flags [OF this]
  show "wrap64 (sum_list (map raw_Stroke csv)) = sum_list (map raw_Stroke csv)"
    by (simp add: col_sum_def)
qed

theorem kpi_cards_unfiltered_witness:
  "shown_kpi (dashboard [sample_row1, sample_row2, sample_row3]
      \<lparr>age_choice = Some (40, 40), gender_choice = Some [''Male''], smoking_choice = Some []\<rparr>) =
     Some \<lparr>Total_Patients = 3, Average_Glucose_Level = Some 110, Average_BMI = Some (55 / 2),
           Stroke_Cases = 1\<rparr>"
proof -
  let ?csv = "[sample_row1, sample_row2, sample_row3]"
  have "Min (raw_Age ` set ?csv) = 40" "Max (raw_Age ` set ?csv) = 165 / 2"
    by (simp_all add: sample_defs)
  moreover have "py_int 40 = 40" "py_int (165 / 2) = 82" "js_safe 40" "js_safe 82"
    "wrap64 1 = 1"
    by code_simp+
  moreover have "sum_list (map raw_Stroke ?csv) = 1" "mean (map raw_Avg_Glucose_Level ?csv) = Some 110"
    "mean (dropna (map raw_BMI ?csv)) = Some (55 / 2)"
    by (simp_all add: sample_defs mean_def)
  ultimately show ?thesis
    using kpi_cards_unfiltered [of ?csv
      "\<lparr>age_choice = Some (40, 40), gender_choice = Some [''Male''], smoking_choice = Some []\<rparr>"]
    by (simp only:) simp
qed

text \<open>
  C7. For every file and every setting of the widgets: a run shows the insights exactly
  when the sidebar is built, the bar chart of line 85 does not raise and some row has a
  smoking-status label; and whenever it shows them they are computed over the whole
  loaded frame, whatever the widgets select: the mean glucose level, the mean BMI without
  the missing cells, a smoking-status label that no other label outnumbers, and the
  hypertension, heart-disease and stroke rates, each 100 times the mean of its flag
  column.
\<close>

theorem insights_unfiltered:
  "(shown_insights (dashboard csv u) \<noteq> None \<longleftrightarrow>
      (\<exists>s fig. sidebar_filters (load_data csv) u = Inr s \<and>
         px_bar (stroke_by_age (filtered_df (filter_dataframe s))) = Inr fig) \<and>
      dropna (map Smoking_Status (load_data csv)) \<noteq> []) \<and>
   (\<forall>i. shown_insights (dashboard csv u) = Some i \<longrightarrow>
      glucose_mean i = mean (map raw_Avg_Glucose_Level csv) \<and>
      bmi_mean i = mean (dropna (map raw_BMI csv)) \<and>
      smoking_mode i \<in> set (dropna (map Smoking_Status (load_data csv))) \<and>
      (\<forall>l. count_list (dropna (map Smoking_Status (load_data csv))) l
            \<le> count_list (dropna (map Smoking_Status (load_data csv))) (smoking_mode i)) \<and>
      hypertension_pct i =
        map_option (\<lambda>m. 100 * m) (mean (map (of_int \<circ> raw_Hypertension) csv)) \<and>
      heart_disease_pct i =
        map_option (\<lambda>m. 100 * m) (mean (map (of_int \<circ> raw_Heart_Disease) csv)) \<and>
      stroke_pct i = map_option (\<lambda>m. 100 * m) (mean (map (of_int \<circ> raw_Stroke) csv)))"
proof (cases "dropna (map Smoking_Status (load_data csv)) = []")
  case True
  then have "insights (load_data csv) = Inl KeyError"
    by (rule insights_KeyError)
  then have "shown_insights (dashboard csv u) = None"
    by (simp add: shown_insights_dashboard split: sum.splits)
  with True show ?thesis
    by simp
next
  case False
  from mode_props [OF False]
  obtain m ms where m: "mode (map Smoking_Status (load_data csv)) = m # ms"
    "m \<in> set (dropna (map Smoking_Status (load_data csv)))"
    "\<And>l. count_list (dropna (map Smoking_Status (load_data csv))) l
                \<le> count_list (dropna (map Smoking_Status (load_data csv))) m"
    by blast
  note ins = insights_eq [OF m(1)]
  have shown: "shown_insights (dashboard csv u) =
     (case sidebar_filters (load_data csv) u of
        Inl e \<Rightarrow> None
      | Inr s \<Rightarrow>
          (case px_bar (stroke_by_age (filtered_df (filter_dataframe s))) of
             Inl e \<Rightarrow> None
           | Inr fig \<Rightarrow>
               Some \<lparr>glucose_mean = mean (map raw_Avg_Glucose_Level csv),
                     bmi_mean = mean (dropna (map raw_BMI csv)),
                     smoking_mode = m,
                     hypertension_pct = pct (map raw_Hypertension csv),
                     heart_disease_pct = pct (map raw_Heart_Disease csv),
                     stroke_pct = pct (map raw_Stroke csv)\<rparr>))"
    by (simp add: shown_insights_dashboard ins load_data_columns split: sum.splits)
  have reached: "shown_insights (dashboard csv u) \<noteq> None \<longleftrightarrow>
      (\<exists>s fig. sidebar_filters (load_data csv) u = Inr s \<and>
         px_bar (stroke_by_age (filtered_df (filter_dataframe s))) = Inr fig)"
    unfolding shown by (auto split: sum.splits)
  have shown_values: "glucose_mean i = mean (map raw_Avg_Glucose_Level csv) \<and>
      bmi_mean i = mean (dropna (map raw_BMI csv)) \<and>
      smoking_mode i = m \<and>
      hypertension_pct i = pct (map raw_Hypertension csv) \<and>
      heart_disease_pct i = pct (map raw_Heart_Disease csv) \<and>
      stroke_pct i = pct (map raw_Stroke csv)"
    if "shown_insights (dashboard csv u) = Some i" for i
    using that unfolding shown by (auto split: sum.splits)
  show ?thesis
    using False reached shown_values m(2,3) by (simp add: pct_def)
qed

theorem insights_unfiltered_witness:
  "\<exists>i. shown_insights (dashboard [sample_row1, sample_row2, sample_row3] default_input)
          = Some i \<and>
        glucose_mean i = Some 110 \<and> bmi_mean i = Some (55 / 2) \<and>
        smoking_mode i = ''Never Smoked'' \<and>
        hypertension_pct i = Some (200 / 3) \<and> heart_disease_pct i = Some (100 / 3) \<and>
        stroke_pct i = Some (100 / 3)"
proof -
  let ?csv = "[sample_row1, sample_row2, sample_row3]"
  let ?s = "\<lparr>df = load_data ?csv, age_range = (40, 82),
            selected_genders = [''Female'', ''Male''],
            selected_smoking = [''Never Smoked'', ''Smokes'']\<rparr>"
  have labels: "dropna (map Smoking_Status (load_data ?csv)) =
      [''Never Smoked'', ''Smokes'', ''Never Smoked'']"
    by (simp add: load_data_def load_row_labels sample_defs)
  have side: "sidebar_filters (load_data ?csv) default_input = Inr ?s"
    by code_simp
  have bar: "px_bar (stroke_by_age (filtered_df (filter_dataframe ?s))) =
      Inr (Grouped_Bars [(40, 1, 1)])"
    by code_simp
  note run = insights_unfiltered [of ?csv default_input, unfolded labels]
  from run side bar have "shown_insights (dashboard ?csv default_input) \<noteq> None"
    by blast
  then obtain i where i: "shown_insights (dashboard ?csv default_input) = Some i"
    by auto
  with run have v:
    "glucose_mean i = mean (map raw_Avg_Glucose_Level ?csv)"
    "bmi_mean i = mean (dropna (map raw_BMI ?csv))"
    "smoking_mode i \<in> set [''Never Smoked'', ''Smokes'', ''Never Smoked'']"
    "\<forall>l. count_list [''Never Smoked'', ''Smokes'', ''Never Smoked''] l
                \<le> count_list [''Never Smoked'', ''Smokes'', ''Never Smoked''] (smoking_mode i)"
    "hypertension_pct i =
             map_option (\<lambda>m. 100 * m) (mean (map (of_int \<circ> raw_Hypertension) ?csv))"
    "heart_disease_pct i =
             map_option (\<lambda>m. 100 * m) (mean (map (of_int \<circ> raw_Heart_Disease) ?csv))"
    "stroke_pct i = map_option (\<lambda>m. 100 * m) (mean (map (of_int \<circ> raw_Stroke) ?csv))"
    by blast+
  from v(4) have "count_list [''Never Smoked'', ''Smokes'', ''Never Smoked''] ''Never Smoked''
      \<le> count_list [''Never Smoked'', ''Smokes'', ''Never Smoked''] (smoking_mode i)"
    by blast
  with v(3) have m: "smoking_mode i = ''Never Smoked''"
    by auto
  show ?thesis
    using i v(1,2,5,6,7) m by (intro exI [of _ i]) (simp add: sample_defs mean_def)
qed

text \<open>
  C8. Each of the four coded columns goes through its table once, and a code outside the
  table becomes a missing label (\<open>load_row_labels\<close>); the claim adds that missing labels
  never stop the rendering. The script breaks this last part: on a two-line file whose
  smoking-status codes are both 4, no row has a label, the mode of the column is empty,
  and reading its entry 0 at line 143 raises KeyError.
\<close>

theorem absent_smoking_labels_KeyError:
  "insights (load_data
     [\<lparr>raw_ID = 1, raw_Gender = 0, raw_Age = 40, raw_Hypertension = 0, raw_Heart_Disease = 0,
       raw_Ever_Married = 1, raw_Work_Type = 1, raw_Residence_Type = 0,
       raw_Avg_Glucose_Level = 100, raw_BMI = Some 25, raw_Smoking_Status = 4, raw_Stroke = 0\<rparr>,
      \<lparr>raw_ID = 2, raw_Gender = 1, raw_Age = 50, raw_Hypertension = 1, raw_Heart_Disease = 0,
       raw_Ever_Married = 1, raw_Work_Type = 1, raw_Residence_Type = 1,
       raw_Avg_Glucose_Level = 120, raw_BMI = Some 30, raw_Smoking_Status = 4, raw_Stroke = 1\<rparr>])
   = Inl KeyError"
  by (simp add: load_data_def load_row_labels insights_def mode_def getitem0_def)

text \<open>
  C9. On a non-empty frame the slider's bounds are the truncations of the smallest and
  the largest age. When they differ and are exact JavaScript integers the sidebar is
  built, the selected range lies within the bounds whatever the widgets hold, and it is
  the whole range from bound to bound when the slider is left untouched; so no row whose
  age exceeds the truncated largest age is in the filtered view, at any setting. When the
  largest age is positive and not whole there is such a row.
\<close>

theorem age_range_truncated:
  assumes "d \<noteq> []"
    and "py_int (Min (Age ` set d)) < py_int (Max (Age ` set d))"
    and "js_safe (py_int (Min (Age ` set d)))"
    and "js_safe (py_int (Max (Age ` set d)))"
  shows "age_min_value d = Inr (py_int (Min (Age ` set d))) \<and>
         age_max_value d = Inr (py_int (Max (Age ` set d))) \<and>
         (\<exists>s. sidebar_filters d u = Inr s \<and>
            py_int (Min (Age ` set d)) \<le> fst (age_range s) \<and>
            fst (age_range s) \<le> snd (age_range s) \<and>
            snd (age_range s) \<le> py_int (Max (Age ` set d)) \<and>
            (age_choice u = None \<longrightarrow>
               age_range s = (py_int (Min (Age ` set d)), py_int (Max (Age ` set d)))) \<and>
            (\<forall>r\<in>set d. of_int (py_int (Max (Age ` set d))) < Age r \<longrightarrow>
               r \<notin> set (filtered_df (filter_dataframe s)))) \<and>
         (0 < Max (Age ` set d) \<and> Max (Age ` set d) \<notin> \<int> \<longrightarrow>
            (\<exists>r\<in>set d. of_int (py_int (Max (Age ` set d))) < Age r))"
proof (intro conjI impI)
  let ?lo = "py_int (Min (Age ` set d))"
  let ?hi = "py_int (Max (Age ` set d))"
  show "age_min_value d = Inr ?lo" "age_max_value d = Inr ?hi"
    using assms(1) by (simp_all add: age_min_value_eq age_max_value_eq)
  from slider_ok [OF assms(2-4)]
  obtain ar where ar: "slider ?lo ?hi (?lo, ?hi) (age_choice u) = Inr ar"
    by blast
  note b = slider_Inr [OF ar]
  let ?s = "\<lparr>df = d, age_range = ar,
             selected_genders =
               multiselect (unique (dropna (map Gender d)))
                 (unique (dropna (map Gender d))) (gender_choice u),
             selected_smoking =
               multiselect (unique (dropna (map Smoking_Status d)))
                 (unique (dropna (map Smoking_Status d))) (smoking_choice u)\<rparr>"
  have side: "sidebar_filters d u = Inr ?s"
    using assms(1) ar by (simp add: sidebar_filters_eq)
  have out: "r \<notin> set (filtered_df (filter_dataframe ?s))"
    if "r \<in> set d" "of_int ?hi < Age r" for r
  proof -
    from b have "(of_int (snd ar) :: rat) \<le> of_int ?hi"
      by simp
    with that have "\<not> Age r \<le> of_int (snd ar)"
      by linarith
    then show ?thesis
      by (simp add: filtered_df_eq_filter passes_def)
  qed
  show "\<exists>s. sidebar_filters d u = Inr s \<and>
            ?lo \<le> fst (age_range s) \<and> fst (age_range s) \<le> snd (age_range s) \<and>
            snd (age_range s) \<le> ?hi \<and>
            (age_choice u = None \<longrightarrow> age_range s = (?lo, ?hi)) \<and>
            (\<forall>r\<in>set d. of_int ?hi < Age r \<longrightarrow>
               r \<notin> set (filtered_df (filter_dataframe s)))"
    using side b out by (intro exI [of _ ?s]) simp
next
  assume h: "0 < Max (Age ` set d) \<and> Max (Age ` set d) \<notin> \<int>"
  have "Max (Age ` set d) \<in> Age ` set d"
    using assms(1) by (intro Max_in) auto
  then obtain r where "r \<in> set d" "Age r = Max (Age ` set d)"
    by auto
  with py_int_lt [of "Max (Age ` set d)"] h
  show "\<exists>r\<in>set d. of_int (py_int (Max (Age ` set d))) < Age r"
    by (intro bexI [of _ r]) simp_all
qed

theorem age_range_truncated_witness:
  "age_min_value (load_data [sample_row1, sample_row2, sample_row3]) = Inr 40 \<and>
   age_max_value (load_data [sample_row1, sample_row2, sample_row3]) = Inr 82 \<and>
   sidebar_filters (load_data [sample_row1, sample_row2, sample_row3]) default_input =
     Inr \<lparr>df = load_data [sample_row1, sample_row2, sample_row3], age_range = (40, 82),
          selected_genders = [''Female'', ''Male''],
          selected_smoking = [''Never Smoked'', ''Smokes'']\<rparr> \<and>
   load_row sample_row3 \<notin> set (filtered_df (filter_dataframe
         \<lparr>df = load_data [sample_row1, sample_row2, sample_row3], age_range = (40, 82),
          selected_genders = [''Female'', ''Male''],
          selected_smoking = [''Never Smoked'', ''Smokes'']\<rparr>))"
proof -
  let ?d = "load_data [sample_row1, sample_row2, sample_row3]"
  let ?s = "\<lparr>df = ?d, age_range = (40, 82), selected_genders = [''Female'', ''Male''],
          selected_smoking = [''Never Smoked'', ''Smokes'']\<rparr>"
  have ne: "?d \<noteq> []"
    by (simp add: load_data_def)
  have side: "sidebar_filters ?d default_input = Inr ?s"
    by code_simp
  have "Min (Age ` set ?d) = 40" "Max (Age ` set ?d) = 165 / 2"
    by (simp_all add: load_data_def load_row_def sample_defs)
  moreover have "py_int 40 = 40" "py_int (165 / 2) = 82"
    by code_simp+
  ultimately have mn: "py_int (Min (Age ` set ?d)) = 40" and mx: "py_int (Max (Age ` set ?d)) = 82"
    by (simp_all only:)
  have lt: "py_int (Min (Age ` set ?d)) < py_int (Max (Age ` set ?d))"
    unfolding mn mx by simp
  have safe: "js_safe (py_int (Min (Age ` set ?d)))" "js_safe (py_int (Max (Age ` set ?d)))"
    unfolding mn mx by (simp_all add: js_safe_def)
  have r: "load_row sample_row3 \<in> set ?d" "of_int 82 < Age (load_row sample_row3)"
    by (simp_all add: load_data_def load_row_def sample_defs)
  note run = age_range_truncated [OF ne lt safe, of default_input, unfolded mn mx side]
  from run have bounds: "age_min_value ?d = Inr 40" "age_max_value ?d = Inr 82"
    by blast+
  from run r have "load_row sample_row3 \<notin> set (filtered_df (filter_dataframe ?s))"
    by blast
  with bounds side show ?thesis
    by simp
qed

text \<open>
  C10. Filtering leaves the loaded frame as it was; the filtered view is a subsequence of
  the frame (rows in their order, each used at most once); and a selection with a
  narrower age range and fewer gender and smoking-status labels gives a view that is a
  subsequence of the wider selection's view, so narrowing never adds a row.
\<close>

theorem filter_dataframe_monotone:
  "df (filter_dataframe s) = df s \<and>
   subseq (filtered_df (filter_dataframe s)) (df s) \<and>
   (df s' = df s \<and>
    fst (age_range s) \<le> fst (age_range s') \<and> snd (age_range s') \<le> snd (age_range s) \<and>
    set (selected_genders s') \<subseteq> set (selected_genders s) \<and>
    set (selected_smoking s') \<subseteq> set (selected_smoking s) \<longrightarrow>
    subseq (filtered_df (filter_dataframe s')) (filtered_df (filter_dataframe s)))"
proof (intro conjI impI)
  show "df (filter_dataframe s) = df s"
    by (rule df_filter_dataframe)
  show "subseq (filtered_df (filter_dataframe s)) (df s)"
    unfolding filtered_df_eq_filter by (rule subseq_filter_left)
next
  let ?P = "passes (age_range s) (selected_genders s) (selected_smoking s)"
  let ?P' = "passes (age_range s') (selected_genders s') (selected_smoking s')"
  assume h: "df s' = df s \<and>
    fst (age_range s) \<le> fst (age_range s') \<and> snd (age_range s') \<le> snd (age_range s) \<and>
    set (selected_genders s') \<subseteq> set (selected_genders s) \<and>
    set (selected_smoking s') \<subseteq> set (selected_smoking s)"
  have imp: "?P r" if "?P' r" for r
  proof -
    have "(of_int (fst (age_range s)) :: rat) \<le> of_int (fst (age_range s'))"
         "(of_int (snd (age_range s')) :: rat) \<le> of_int (snd (age_range s))"
      using h by simp_all
    with that h show ?thesis
      unfolding passes_def by (auto intro: order_trans)
  qed
  have "filter ?P' (df s) = filter ?P' (filter ?P (df s))"
    unfolding filter_filter by (rule filter_cong) (use imp in auto)
  then have "subseq (filter ?P' (df s)) (filter ?P (df s))"
    by (metis subseq_filter_left)
  then show "subseq (filtered_df (filter_dataframe s')) (filtered_df (filter_dataframe s))"
    using h by (simp add: filtered_df_eq_filter)
qed

theorem filter_dataframe_monotone_witness:
  "subseq
     (filtered_df (filter_dataframe
        \<lparr>df = load_data [sample_row1, sample_row2, sample_row3], age_range = (40, 40),
         selected_genders = [''Male''], selected_smoking = [''Smokes'']\<rparr>))
     (filtered_df (filter_dataframe
        \<lparr>df = load_data [sample_row1, sample_row2, sample_row3], age_range = (40, 83),
         selected_genders = [''Female'', ''Male''],
         selected_smoking = [''Never Smoked'', ''Smokes'']\<rparr>))"
  using filter_dataframe_monotone [of
      "\<lparr>df = load_data [sample_row1, sample_row2, sample_row3], age_range = (40, 83),
         selected_genders = [''Female'', ''Male''],
         selected_smoking = [''Never Smoked'', ''Smokes'']\<rparr>"
      "\<lparr>df = load_data [sample_row1, sample_row2, sample_row3], age_range = (40, 40),
         selected_genders = [''Male''], selected_smoking = [''Smokes'']\<rparr>"]
  by simp

end
